theory Spec2Isabelle
  imports Complex_Main "HOL-Library.Log_Nat"
begin

section \<open>The DSA interview-prep agent (src/agent.py)\<close>

text \<open>
  A shallow embedding of the classes of the module: \<^verbatim>\<open>ProgressTracker\<close>, the two
  agents that wrap the language-model client, and the coordinator
  \<^verbatim>\<open>DSAInterviewPrepAgent\<close>.

  Conventions.
  \<^item> Every method of the tracker and of the coordinator is a function from the tracker's
    \<^verbatim>\<open>user_data\<close> before the call to either a Python exception (\<open>Inl\<close>) or the
    returned value paired with \<^verbatim>\<open>user_data\<close> after the call (\<open>Inr\<close>). The two
    agents hold the client and a model name only, so their methods take no state.
  \<^item> \<^verbatim>\<open>datetime.now()\<close> is an input: every method that reads the clock takes the
    formatted instants as arguments.
  \<^item> \<^verbatim>\<open>client.models.generate_content\<close> is an input: the method takes the outcome of
    the call, an exception or a response text. The prompt text is not modelled.
  \<^item> A Python \<^verbatim>\<open>float\<close> is represented by the rational number it denotes; the three
    floating-point operations the code uses are inputs as well (\<open>float_arith\<close>).
    The general theorems hold for every \<open>float_arith\<close>. \<open>binary64_arith\<close> is the
    arithmetic of CPython on IEEE 754 doubles. \<open>exact_arith\<close> has no rounding error;
    the examples that use it are in states where the quotient is 0 or 1, which floating
    point computes without rounding.
\<close>

subsection \<open>Python values\<close>

datatype py_error = IndexError | ZeroDivisionError

text \<open>\<^verbatim>\<open>xs[0]\<close>: raises on the empty list.\<close>

definition subscript0 :: "'a list \<Rightarrow> py_error + 'a" where
  "subscript0 xs = (case xs of [] \<Rightarrow> Inl IndexError | x # _ \<Rightarrow> Inr x)"

text \<open>A number: an \<^verbatim>\<open>int\<close>, or a \<^verbatim>\<open>float\<close> given by its value.\<close>

datatype pynum = PyInt int | PyFloat rat

fun num_val :: "pynum \<Rightarrow> rat" where
  "num_val (PyInt n) = of_int n"
| "num_val (PyFloat x) = x"

text \<open>
  The floating-point operations of \<^verbatim>\<open>get_progress_summary\<close>: \<^verbatim>\<open>int / int\<close> (for a
  divisor other than zero), \<^verbatim>\<open>float * int\<close> and \<^verbatim>\<open>round(float, ndigits)\<close>.
\<close>

record float_arith =
  fl_truediv :: "int \<Rightarrow> int \<Rightarrow> rat"
  fl_mul :: "rat \<Rightarrow> int \<Rightarrow> rat"
  fl_round :: "rat \<Rightarrow> nat \<Rightarrow> rat"

text \<open>\<^verbatim>\<open>a / b\<close> on two ints.\<close>

definition py_truediv :: "float_arith \<Rightarrow> int \<Rightarrow> int \<Rightarrow> py_error + pynum" where
  "py_truediv fa a b =
     (if b = 0 then Inl ZeroDivisionError else Inr (PyFloat (fl_truediv fa a b)))"

text \<open>\<^verbatim>\<open>x * n\<close> for an int \<open>n\<close>.\<close>

fun py_mul :: "float_arith \<Rightarrow> pynum \<Rightarrow> int \<Rightarrow> pynum" where
  "py_mul fa (PyInt m) n = PyInt (m * n)"
| "py_mul fa (PyFloat x) n = PyFloat (fl_mul fa x n)"

text \<open>\<^verbatim>\<open>round(x, ndigits)\<close> for \<open>ndigits \<ge> 0\<close>: an int is returned as it is.\<close>

fun py_round :: "float_arith \<Rightarrow> pynum \<Rightarrow> nat \<Rightarrow> pynum" where
  "py_round fa (PyInt m) nd = PyInt m"
| "py_round fa (PyFloat x) nd = PyFloat (fl_round fa x nd)"

text \<open>
  Arithmetic on the rationals without rounding error, with \<open>round\<close> to the nearest
  multiple of \<open>10 ^ - nd\<close>: one instance of \<open>float_arith\<close>, for running examples.
\<close>

definition exact_arith :: float_arith where
  "exact_arith =
     \<lparr>fl_truediv = (\<lambda>a b. of_int a / of_int b),
      fl_mul = (\<lambda>x n. x * of_int n),
      fl_round = (\<lambda>x nd. of_int (round (x * 10 ^ nd)) / 10 ^ nd)\<rparr>"

subsection \<open>Floating point as CPython computes it\<close>






subsection \<open>ProgressTracker\<close>

record attempt =
  a_id :: string
  a_topic :: string
  a_difficulty :: string
  a_solved :: bool
  a_timestamp :: string

record user_data =
  problems_solved :: "attempt list"
  topics_covered :: "string set"
  weak_areas :: "string list"
  streak_days :: int
  total_problems :: int
  last_session :: "string option"

text \<open>\<^verbatim>\<open>ProgressTracker.__init__\<close>\<close>

definition init_user_data :: user_data where
  "init_user_data =
     \<lparr>problems_solved = [], topics_covered = {}, weak_areas = [],
      streak_days = 0, total_problems = 0, last_session = None\<rparr>"

text \<open>
  The dict returned by \<^verbatim>\<open>get_progress_summary\<close>. \<^verbatim>\<open>list(topics_covered)\<close> lists the
  set in an order the language leaves open; the model keeps the set.
\<close>

record summary =
  p_total_problems :: int
  p_problems_solved :: int
  p_accuracy :: pynum
  p_topics_covered :: "string set"
  p_weak_areas :: "string list"

text \<open>\<^verbatim>\<open>sum(1 for p in problems_solved if p['solved'])\<close>\<close>

definition solved_count :: "user_data \<Rightarrow> int" where
  "solved_count ud = int (length (filter a_solved (problems_solved ud)))"

definition get_progress_summary ::
  "float_arith \<Rightarrow> user_data \<Rightarrow> py_error + (summary \<times> user_data)" where
  "get_progress_summary fa ud =
     (case (if total_problems ud > 0
            then (case py_truediv fa (solved_count ud) (total_problems ud) of
                    Inl e \<Rightarrow> Inl e
                  | Inr q \<Rightarrow> Inr (py_mul fa q 100))
            else Inr (PyInt 0)) of
        Inl e \<Rightarrow> Inl e
      | Inr accuracy \<Rightarrow>
          Inr (\<lparr>p_total_problems = total_problems ud,
                p_problems_solved = solved_count ud,
                p_accuracy = py_round fa accuracy 2,
                p_topics_covered = topics_covered ud,
                p_weak_areas = weak_areas ud\<rparr>, ud))"

text \<open>
  \<^verbatim>\<open>update_progress\<close>: \<open>ts\<close> is \<^verbatim>\<open>datetime.now().isoformat()\<close>. The method has no
  check of its arguments and no learner argument.
\<close>

definition update_progress ::
  "float_arith \<Rightarrow> string \<Rightarrow> string \<Rightarrow> string \<Rightarrow> string \<Rightarrow> bool \<Rightarrow> user_data
     \<Rightarrow> py_error + (summary \<times> user_data)" where
  "update_progress fa ts problem_id topic difficulty solved ud =
     (let ud1 = ud\<lparr>problems_solved := problems_solved ud @
                   [\<lparr>a_id = problem_id, a_topic = topic, a_difficulty = difficulty,
                     a_solved = solved, a_timestamp = ts\<rparr>]\<rparr>;
          ud2 = ud1\<lparr>topics_covered := insert topic (topics_covered ud1)\<rparr>;
          ud3 = ud2\<lparr>total_problems := total_problems ud2 + 1\<rparr>;
          ud4 = (if \<not> solved
                 then (if topic \<notin> set (weak_areas ud3)
                       then ud3\<lparr>weak_areas := weak_areas ud3 @ [topic]\<rparr>
                       else ud3)
                 else ud3)
      in get_progress_summary fa ud4)"

definition all_topics :: "string list" where
  "all_topics =
     [''Arrays'', ''Linked Lists'', ''Trees'', ''Graphs'', ''Dynamic Programming'',
      ''Backtracking'', ''Greedy'', ''Sorting'', ''Searching'', ''Strings'']"

definition recommend_next_topic :: "user_data \<Rightarrow> py_error + (string \<times> user_data)" where
  "recommend_next_topic ud =
     (if weak_areas ud \<noteq> []
      then (case subscript0 (weak_areas ud) of
              Inl e \<Rightarrow> Inl e
            | Inr t \<Rightarrow> Inr (t, ud))
      else (let uncovered = filter (\<lambda>t. t \<notin> topics_covered ud) all_topics
            in case (if uncovered \<noteq> [] then subscript0 uncovered
                     else subscript0 all_topics) of
                 Inl e \<Rightarrow> Inl e
               | Inr t \<Rightarrow> Inr (t, ud)))"

subsection \<open>The agents around the language-model client\<close>

text \<open>
  The outcome of \<^verbatim>\<open>client.models.generate_content(...)\<close>: an exception with its
  message \<^verbatim>\<open>str(e)\<close>, or a response with its \<^verbatim>\<open>text\<close>.
\<close>

datatype api_result = ApiRaised string | ApiResponse string

text \<open>
  \<^verbatim>\<open>str.lower\<close> on ASCII text (a \<open>char\<close> is a byte): the letters A to Z are lowered and
  every other byte is kept. Python lowers the letters beyond ASCII as well, so the model
  gives the id of the code for ASCII topics only; the topics of \<open>all_topics\<close> and the
  literal of \<^verbatim>\<open>submit_solution\<close> are ASCII.
\<close>

definition lower_char :: "char \<Rightarrow> char" where
  "lower_char c =
     (let n = (of_char c :: nat) in if 65 \<le> n \<and> n \<le> 90 then char_of (n + 32) else c)"

definition str_lower :: "string \<Rightarrow> string" where
  "str_lower s = map lower_char s"

text \<open>\<^verbatim>\<open>s.replace(' ', '_')\<close>\<close>

definition replace_space :: "string \<Rightarrow> string" where
  "replace_space s = map (\<lambda>c. if c = CHR '' '' then CHR ''_'' else c) s"

record problem =
  pr_id :: string
  pr_topic :: string
  pr_difficulty :: string
  pr_content :: string
  pr_generated_at :: string

text \<open>What \<^verbatim>\<open>generate_problem\<close> returns: the problem, or \<^verbatim>\<open>{'error': str(e)}\<close>.\<close>

datatype problem_dict = ProblemError string | Problem problem

text \<open>
  \<^verbatim>\<open>ProblemGeneratorAgent.generate_problem\<close>: \<open>stamp\<close> is
  \<^verbatim>\<open>datetime.now().strftime('%Y%m%d%H%M%S')\<close> and \<open>generated_at\<close> is
  \<^verbatim>\<open>datetime.now().isoformat()\<close>. The method has no access to the tracker.
\<close>

definition generate_problem ::
  "api_result \<Rightarrow> string \<Rightarrow> string \<Rightarrow> string \<Rightarrow> string \<Rightarrow> string \<Rightarrow> problem_dict" where
  "generate_problem outcome stamp generated_at topic difficulty user_level =
     (case outcome of
        ApiResponse problem_text \<Rightarrow>
          Problem \<lparr>pr_id = replace_space (str_lower topic) @ ''_'' @ stamp,
                   pr_topic = topic,
                   pr_difficulty = difficulty,
                   pr_content = problem_text,
                   pr_generated_at = generated_at\<rparr>
      | ApiRaised msg \<Rightarrow> ProblemError msg)"

record evaluation =
  ev_problem_id :: "string option"
  ev_feedback :: string
  ev_evaluated_at :: string

text \<open>What \<^verbatim>\<open>evaluate_solution\<close> returns: the evaluation, or \<^verbatim>\<open>{'error': str(e)}\<close>.\<close>

datatype evaluation_dict = EvaluationError string | Evaluation evaluation

text \<open>
  \<^verbatim>\<open>SolutionEvaluatorAgent.evaluate_solution\<close>: the problem is a dict from keys to
  strings, \<open>evaluated_at\<close> is \<^verbatim>\<open>datetime.now().isoformat()\<close>. The evaluation has no
  field for a verdict: the response text is stored as \<^verbatim>\<open>feedback\<close>.
\<close>

definition evaluate_solution ::
  "api_result \<Rightarrow> string \<Rightarrow> (string \<rightharpoonup> string) \<Rightarrow> string \<Rightarrow> string \<Rightarrow> evaluation_dict" where
  "evaluate_solution outcome evaluated_at problem solution_code language =
     (case outcome of
        ApiResponse text \<Rightarrow>
          Evaluation \<lparr>ev_problem_id = problem ''id'',
                      ev_feedback = text,
                      ev_evaluated_at = evaluated_at\<rparr>
      | ApiRaised msg \<Rightarrow> EvaluationError msg)"

subsection \<open>DSAInterviewPrepAgent\<close>

record session_dict =
  ss_status :: string
  ss_problem :: problem_dict
  ss_progress :: summary

definition start_session ::
  "float_arith \<Rightarrow> api_result \<Rightarrow> string \<Rightarrow> string \<Rightarrow> string \<Rightarrow> user_data
     \<Rightarrow> py_error + (session_dict \<times> user_data)" where
  "start_session fa outcome stamp generated_at user_level ud =
     (case recommend_next_topic ud of
        Inl e \<Rightarrow> Inl e
      | Inr (topic, ud1) \<Rightarrow>
          (let problem = generate_problem outcome stamp generated_at topic ''Medium'' user_level
           in case get_progress_summary fa ud1 of
                Inl e \<Rightarrow> Inl e
              | Inr (progress, ud2) \<Rightarrow>
                  Inr (\<lparr>ss_status = ''session_started'',
                        ss_problem = problem,
                        ss_progress = progress\<rparr>, ud2)))"

record submission_dict =
  sb_status :: string
  sb_evaluation :: evaluation_dict
  sb_progress :: summary

text \<open>
  \<^verbatim>\<open>submit_solution\<close>: \<open>evaluated_at\<close> is the clock read by the evaluator, \<open>ts\<close> the
  one read by \<^verbatim>\<open>update_progress\<close>. The verdict, the topic and the difficulty are
  the literals of the source.
\<close>

definition submit_solution ::
  "float_arith \<Rightarrow> api_result \<Rightarrow> string \<Rightarrow> string \<Rightarrow> string \<Rightarrow> string \<Rightarrow> string \<Rightarrow> user_data
     \<Rightarrow> py_error + (submission_dict \<times> user_data)" where
  "submit_solution fa outcome evaluated_at ts problem_id solution_code language ud =
     (let problem = [''id'' \<mapsto> problem_id, ''content'' \<mapsto> ''Problem content placeholder''];
          evaluation = evaluate_solution outcome evaluated_at problem solution_code language;
          solved = True
      in case update_progress fa ts problem_id ''Dynamic Programming'' ''Medium'' solved ud of
           Inl e \<Rightarrow> Inl e
         | Inr (_, ud1) \<Rightarrow>
             (case get_progress_summary fa ud1 of
                Inl e \<Rightarrow> Inl e
              | Inr (progress, ud2) \<Rightarrow>
                  Inr (\<lparr>sb_status = ''solution_evaluated'',
                        sb_evaluation = evaluation,
                        sb_progress = progress\<rparr>, ud2)))"

text \<open>\<^verbatim>\<open>_generate_study_suggestions\<close>\<close>

definition generate_study_suggestions :: "summary \<Rightarrow> py_error + string list" where
  "generate_study_suggestions progress =
     (let s0 = [];
          s1 = (if p_total_problems progress < 10
                then s0 @ [''Build consistency by solving at least 2 problems daily'']
                else s0);
          s2 = (if num_val (p_accuracy progress) < 50
                then s1 @ [''Focus on understanding concepts before attempting more problems'']
                else s1)
      in if p_weak_areas progress \<noteq> []
         then (case subscript0 (p_weak_areas progress) of
                 Inl e \<Rightarrow> Inl e
               | Inr t \<Rightarrow> Inr (s2 @ [''Review '' @ t @ '' fundamentals'']))
         else Inr s2)"

record plan_dict =
  pl_current_progress :: summary
  pl_recommended_topic :: string
  pl_weak_areas :: "string list"
  pl_suggestions :: "string list"

definition get_study_plan ::
  "float_arith \<Rightarrow> user_data \<Rightarrow> py_error + (plan_dict \<times> user_data)" where
  "get_study_plan fa ud =
     (case get_progress_summary fa ud of
        Inl e \<Rightarrow> Inl e
      | Inr (progress, ud1) \<Rightarrow>
          (case recommend_next_topic ud1 of
             Inl e \<Rightarrow> Inl e
           | Inr (next_topic, ud2) \<Rightarrow>
               (case generate_study_suggestions progress of
                  Inl e \<Rightarrow> Inl e
                | Inr suggestions \<Rightarrow>
                    Inr (\<lparr>pl_current_progress = progress,
                          pl_recommended_topic = next_topic,
                          pl_weak_areas = p_weak_areas progress,
                          pl_suggestions = suggestions\<rparr>, ud2))))"

subsection \<open>Sequences of calls\<close>

text \<open>One call of \<^verbatim>\<open>update_progress\<close>: its arguments and the clock it reads.\<close>

record call =
  c_problem_id :: string
  c_topic :: string
  c_difficulty :: string
  c_solved :: bool
  c_ts :: string

text \<open>The calls of a list, one after the other; an exception ends the run.\<close>

fun update_progress_all ::
  "float_arith \<Rightarrow> call list \<Rightarrow> user_data \<Rightarrow> py_error + user_data" where
  "update_progress_all fa [] ud = Inr ud"
| "update_progress_all fa (c # cs) ud =
     (case update_progress fa (c_ts c) (c_problem_id c) (c_topic c) (c_difficulty c)
             (c_solved c) ud of
        Inl e \<Rightarrow> Inl e
      | Inr (_, ud') \<Rightarrow> update_progress_all fa cs ud')"

text \<open>The invariant of the progress state.\<close>

definition progress_inv :: "user_data \<Rightarrow> bool" where
  "progress_inv ud =
     (a_topic ` set (problems_solved ud) \<subseteq> topics_covered ud
      \<and> set (weak_areas ud) \<subseteq> topics_covered ud
      \<and> distinct (weak_areas ud)
      \<and> 0 \<le> solved_count ud
      \<and> solved_count ud \<le> total_problems ud)"

subsection \<open>Two states\<close>



section \<open>Properties\<close>

subsection \<open>No method raises\<close>

lemma subscript0_filter:
  "subscript0 (filter P xs) =
     (case List.find P xs of None \<Rightarrow> Inl IndexError | Some x \<Rightarrow> Inr x)"
  by (induction xs) (simp_all add: subscript0_def)

lemma filter_Nil_find: "(filter P xs = []) = (List.find P xs = None)"
  by (induction xs) simp_all

text \<open>The summary is built from the state as it is, and the state is returned as it is.\<close>

lemma get_progress_summary_Inr:
  "\<exists>acc. get_progress_summary fa ud =
     Inr (\<lparr>p_total_problems = total_problems ud,
           p_problems_solved = solved_count ud,
           p_accuracy = acc,
           p_topics_covered = topics_covered ud,
           p_weak_areas = weak_areas ud\<rparr>, ud)"
  by (simp add: get_progress_summary_def py_truediv_def)

text \<open>
  Without recorded problems the division is not evaluated and the accuracy is the int 0,
  whatever the floating-point operations are.
\<close>

lemma get_progress_summary_no_problems:
  "total_problems ud \<le> 0 \<Longrightarrow>
     get_progress_summary fa ud =
       Inr (\<lparr>p_total_problems = total_problems ud,
             p_problems_solved = solved_count ud,
             p_accuracy = PyInt 0,
             p_topics_covered = topics_covered ud,
             p_weak_areas = weak_areas ud\<rparr>, ud)"
  by (simp add: get_progress_summary_def)

text \<open>The state after \<^verbatim>\<open>update_progress\<close>, and the summary it returns.\<close>

lemma update_progress_Inr:
  "\<exists>acc. update_progress fa ts problem_id topic difficulty solved ud =
     Inr (\<lparr>p_total_problems = total_problems ud + 1,
           p_problems_solved = solved_count ud + (if solved then 1 else 0),
           p_accuracy = acc,
           p_topics_covered = insert topic (topics_covered ud),
           p_weak_areas = (if solved \<or> topic \<in> set (weak_areas ud) then weak_areas ud
                           else weak_areas ud @ [topic])\<rparr>,
          ud\<lparr>problems_solved := problems_solved ud @
                [\<lparr>a_id = problem_id, a_topic = topic, a_difficulty = difficulty,
                  a_solved = solved, a_timestamp = ts\<rparr>],
             topics_covered := insert topic (topics_covered ud),
             total_problems := total_problems ud + 1,
             weak_areas := (if solved \<or> topic \<in> set (weak_areas ud) then weak_areas ud
                            else weak_areas ud @ [topic])\<rparr>)"
proof -
  let ?ud' = "ud\<lparr>problems_solved := problems_solved ud @
                [\<lparr>a_id = problem_id, a_topic = topic, a_difficulty = difficulty,
                  a_solved = solved, a_timestamp = ts\<rparr>],
             topics_covered := insert topic (topics_covered ud),
             total_problems := total_problems ud + 1,
             weak_areas := (if solved \<or> topic \<in> set (weak_areas ud) then weak_areas ud
                            else weak_areas ud @ [topic])\<rparr>"
  have step: "update_progress fa ts problem_id topic difficulty solved ud =
                get_progress_summary fa ?ud'"
    by (simp add: update_progress_def Let_def)
  have count: "solved_count ?ud' = solved_count ud + (if solved then 1 else 0)"
    by (simp add: solved_count_def)
  from get_progress_summary_Inr [of fa ?ud'] count step show ?thesis
    by auto
qed

lemma update_progress_counts:
  "\<exists>s ud'. update_progress fa ts problem_id topic difficulty solved ud = Inr (s, ud')
           \<and> total_problems ud' = total_problems ud + 1
           \<and> solved_count ud' = solved_count ud + (if solved then 1 else 0)"
proof -
  from update_progress_Inr [of fa ts problem_id topic difficulty solved ud]
  obtain s ud' where run: "update_progress fa ts problem_id topic difficulty solved ud = Inr (s, ud')"
    and ud': "ud' = ud\<lparr>problems_solved := problems_solved ud @
                [\<lparr>a_id = problem_id, a_topic = topic, a_difficulty = difficulty,
                  a_solved = solved, a_timestamp = ts\<rparr>],
             topics_covered := insert topic (topics_covered ud),
             total_problems := total_problems ud + 1,
             weak_areas := (if solved \<or> topic \<in> set (weak_areas ud) then weak_areas ud
                            else weak_areas ud @ [topic])\<rparr>"
    by blast
  have "total_problems ud' = total_problems ud + 1"
    and "solved_count ud' = solved_count ud + (if solved then 1 else 0)"
    unfolding ud' by (simp_all add: solved_count_def)
  with run show ?thesis by blast
qed

lemma recommend_next_topic_Inr: "\<exists>topic. recommend_next_topic ud = Inr (topic, ud)"
proof (cases "weak_areas ud")
  case (Cons w ws)
  then show ?thesis
    by (simp add: recommend_next_topic_def subscript0_def)
next
  case Nil
  show ?thesis
  proof (cases "filter (\<lambda>t. t \<notin> topics_covered ud) all_topics")
    case Nil': Nil
    have "subscript0 all_topics = Inr ''Arrays''"
      by (simp add: all_topics_def subscript0_def)
    with Nil Nil' show ?thesis
      by (simp add: recommend_next_topic_def)
  next
    case (Cons t ts)
    with Nil show ?thesis
      by (simp add: recommend_next_topic_def subscript0_def)
  qed
qed

lemma generate_study_suggestions_Inr:
  "\<exists>suggestions. generate_study_suggestions progress = Inr suggestions"
  by (simp add: generate_study_suggestions_def subscript0_def Let_def split: list.splits)

text \<open>
  \<^verbatim>\<open>submit_solution\<close> records the same attempt for every outcome of the evaluator: topic
  Dynamic Programming, difficulty Medium, solved.
\<close>

lemma submit_solution_Inr:
  "\<exists>r. submit_solution fa outcome evaluated_at ts problem_id solution_code language ud =
     Inr (r, ud\<lparr>problems_solved := problems_solved ud @
                   [\<lparr>a_id = problem_id, a_topic = ''Dynamic Programming'',
                     a_difficulty = ''Medium'', a_solved = True, a_timestamp = ts\<rparr>],
                topics_covered := insert ''Dynamic Programming'' (topics_covered ud),
                total_problems := total_problems ud + 1,
                weak_areas := weak_areas ud\<rparr>)"
proof -
  let ?ud' = "ud\<lparr>problems_solved := problems_solved ud @
                   [\<lparr>a_id = problem_id, a_topic = ''Dynamic Programming'',
                     a_difficulty = ''Medium'', a_solved = True, a_timestamp = ts\<rparr>],
                topics_covered := insert ''Dynamic Programming'' (topics_covered ud),
                total_problems := total_problems ud + 1,
                weak_areas := weak_areas ud\<rparr>"
  from update_progress_Inr [of fa ts problem_id "''Dynamic Programming''" "''Medium''" True ud]
  obtain s where up: "update_progress fa ts problem_id ''Dynamic Programming'' ''Medium'' True ud
                        = Inr (s, ?ud')"
    by auto
  from get_progress_summary_Inr [of fa ?ud']
  obtain s' where "get_progress_summary fa ?ud' = Inr (s', ?ud')"
    by blast
  with up show ?thesis
    by (simp add: submit_solution_def Let_def)
qed

lemma start_session_Inr:
  "\<exists>r. start_session fa outcome stamp generated_at user_level ud = Inr (r, ud)"
proof -
  from recommend_next_topic_Inr [of ud]
  obtain topic where rec: "recommend_next_topic ud = Inr (topic, ud)"
    by blast
  from get_progress_summary_Inr [of fa ud]
  obtain s where "get_progress_summary fa ud = Inr (s, ud)"
    by blast
  with rec show ?thesis
    by (simp add: start_session_def Let_def)
qed

lemma get_study_plan_Inr:
  "\<exists>r progress. get_progress_summary fa ud = Inr (progress, ud)
       \<and> get_study_plan fa ud = Inr (r, ud)
       \<and> generate_study_suggestions progress = Inr (pl_suggestions r)"
proof -
  from get_progress_summary_Inr [of fa ud]
  obtain progress where s: "get_progress_summary fa ud = Inr (progress, ud)"
    by blast
  from recommend_next_topic_Inr [of ud]
  obtain topic where rec: "recommend_next_topic ud = Inr (topic, ud)"
    by blast
  from generate_study_suggestions_Inr [of progress]
  obtain sg where "generate_study_suggestions progress = Inr sg"
    by blast
  with s rec show ?thesis
    by (simp add: get_study_plan_def)
qed

subsection \<open>The invariant\<close>

lemma progress_inv_init: "progress_inv init_user_data"
  by (simp add: progress_inv_def init_user_data_def solved_count_def)

lemma update_progress_inv:
  assumes "progress_inv ud"
  shows "\<exists>s ud'. update_progress fa ts problem_id topic difficulty solved ud = Inr (s, ud')
           \<and> progress_inv ud'"
proof -
  from update_progress_Inr [of fa ts problem_id topic difficulty solved ud]
  obtain s ud' where run: "update_progress fa ts problem_id topic difficulty solved ud = Inr (s, ud')"
    and ud': "ud' = ud\<lparr>problems_solved := problems_solved ud @
                [\<lparr>a_id = problem_id, a_topic = topic, a_difficulty = difficulty,
                  a_solved = solved, a_timestamp = ts\<rparr>],
             topics_covered := insert topic (topics_covered ud),
             total_problems := total_problems ud + 1,
             weak_areas := (if solved \<or> topic \<in> set (weak_areas ud) then weak_areas ud
                            else weak_areas ud @ [topic])\<rparr>"
    by blast
  from assms have "progress_inv ud'"
    unfolding ud' progress_inv_def solved_count_def by auto
  with run show ?thesis by blast
qed

lemma submit_solution_inv:
  assumes "progress_inv ud"
  shows "\<exists>r ud'. submit_solution fa outcome evaluated_at ts problem_id solution_code language ud
                    = Inr (r, ud') \<and> progress_inv ud'"
proof -
  from submit_solution_Inr [of fa outcome evaluated_at ts problem_id solution_code language ud]
  obtain r ud' where run: "submit_solution fa outcome evaluated_at ts problem_id solution_code
                             language ud = Inr (r, ud')"
    and ud': "ud' = ud\<lparr>problems_solved := problems_solved ud @
                   [\<lparr>a_id = problem_id, a_topic = ''Dynamic Programming'',
                     a_difficulty = ''Medium'', a_solved = True, a_timestamp = ts\<rparr>],
                topics_covered := insert ''Dynamic Programming'' (topics_covered ud),
                total_problems := total_problems ud + 1,
                weak_areas := weak_areas ud\<rparr>"
    by blast
  from assms have "progress_inv ud'"
    unfolding ud' progress_inv_def solved_count_def by auto
  with run show ?thesis by blast
qed

subsection \<open>Sequences of \<^verbatim>\<open>update_progress\<close>\<close>

lemma update_progress_all_counts:
  "\<exists>ud'. update_progress_all fa cs ud = Inr ud'
         \<and> total_problems ud' = total_problems ud + int (length cs)
         \<and> solved_count ud' = solved_count ud + int (length (filter c_solved cs))"
proof (induction cs arbitrary: ud)
  case Nil
  show ?case by simp
next
  case (Cons c cs)
  from update_progress_counts [of fa "c_ts c" "c_problem_id c" "c_topic c" "c_difficulty c"
         "c_solved c" ud]
  obtain s ud1 where run: "update_progress fa (c_ts c) (c_problem_id c) (c_topic c)
                             (c_difficulty c) (c_solved c) ud = Inr (s, ud1)"
    and tot: "total_problems ud1 = total_problems ud + 1"
    and cnt: "solved_count ud1 = solved_count ud + (if c_solved c then 1 else 0)"
    by blast
  from Cons.IH [of ud1]
  obtain ud' where rest: "update_progress_all fa cs ud1 = Inr ud'"
    and tot': "total_problems ud' = total_problems ud1 + int (length cs)"
    and cnt': "solved_count ud' = solved_count ud1 + int (length (filter c_solved cs))"
    by blast
  from run rest have "update_progress_all fa (c # cs) ud = Inr ud'"
    by simp
  moreover from tot tot' have "total_problems ud' = total_problems ud + int (length (c # cs))"
    by simp
  moreover from cnt cnt'
  have "solved_count ud' = solved_count ud + int (length (filter c_solved (c # cs)))"
    by simp
  ultimately show ?case by blast
qed

lemma init_counts: "total_problems init_user_data = 0" "solved_count init_user_data = 0"
  by (simp_all add: init_user_data_def solved_count_def)

subsection \<open>Rounding to a double\<close>
















section \<open>The claims\<close>

text \<open>
  C1. The attempt that \<^verbatim>\<open>submit_solution\<close> records does not come from the evaluation or
  from the problem. On a new tracker, \<^verbatim>\<open>start_session\<close> issues a Medium problem on Arrays
  with the id \<^verbatim>\<open>arrays_20261104120000\<close>; the evaluator answers the submission for
  that id with a feedback text that calls the solution incorrect; the attempt recorded has
  topic Dynamic Programming and is solved.
\<close>

theorem submit_solution_records_literals:
  "start_session exact_arith (ApiResponse ''Two Sum'') ''20261104120000''
       ''2026-11-04T12:00:00'' ''intermediate'' init_user_data =
     Inr (\<lparr>ss_status = ''session_started'',
           ss_problem =
             Problem \<lparr>pr_id = ''arrays_20261104120000'', pr_topic = ''Arrays'',
                      pr_difficulty = ''Medium'', pr_content = ''Two Sum'',
                      pr_generated_at = ''2026-11-04T12:00:00''\<rparr>,
           ss_progress =
             \<lparr>p_total_problems = 0, p_problems_solved = 0, p_accuracy = PyInt 0,
              p_topics_covered = {}, p_weak_areas = []\<rparr>\<rparr>,
          init_user_data)
   \<and> submit_solution exact_arith (ApiResponse ''correctness: incorrect; score: 0'')
       ''2026-11-04T12:05:00'' ''2026-11-04T12:05:01'' ''arrays_20261104120000'' ''pass''
       ''python'' init_user_data =
     Inr (\<lparr>sb_status = ''solution_evaluated'',
           sb_evaluation =
             Evaluation \<lparr>ev_problem_id = Some ''arrays_20261104120000'',
                         ev_feedback = ''correctness: incorrect; score: 0'',
                         ev_evaluated_at = ''2026-11-04T12:05:00''\<rparr>,
           sb_progress =
             \<lparr>p_total_problems = 1, p_problems_solved = 1, p_accuracy = PyFloat 100,
              p_topics_covered = {''Dynamic Programming''}, p_weak_areas = []\<rparr>\<rparr>,
          \<lparr>problems_solved =
             [\<lparr>a_id = ''arrays_20261104120000'', a_topic = ''Dynamic Programming'',
               a_difficulty = ''Medium'', a_solved = True,
               a_timestamp = ''2026-11-04T12:05:01''\<rparr>],
           topics_covered = {''Dynamic Programming''}, weak_areas = [],
           streak_days = 0, total_problems = 1, last_session = None\<rparr>)"
  by code_simp

text \<open>
  C2. When the evaluator's call raises, \<^verbatim>\<open>submit_solution\<close> still records an attempt: on
  a new tracker the returned evaluation is the error, and the state after the call has one
  solved attempt and \<^verbatim>\<open>total_problems\<close> 1.
\<close>

theorem submit_solution_records_after_evaluator_error:
  "submit_solution exact_arith (ApiRaised ''503 UNAVAILABLE'') ''2026-11-04T12:05:00''
       ''2026-11-04T12:05:01'' ''arrays_20261104120000'' ''pass'' ''python'' init_user_data =
     Inr (\<lparr>sb_status = ''solution_evaluated'',
           sb_evaluation = EvaluationError ''503 UNAVAILABLE'',
           sb_progress =
             \<lparr>p_total_problems = 1, p_problems_solved = 1, p_accuracy = PyFloat 100,
              p_topics_covered = {''Dynamic Programming''}, p_weak_areas = []\<rparr>\<rparr>,
          \<lparr>problems_solved =
             [\<lparr>a_id = ''arrays_20261104120000'', a_topic = ''Dynamic Programming'',
               a_difficulty = ''Medium'', a_solved = True,
               a_timestamp = ''2026-11-04T12:05:01''\<rparr>],
           topics_covered = {''Dynamic Programming''}, weak_areas = [],
           streak_days = 0, total_problems = 1, last_session = None\<rparr>)
   \<and> total_problems init_user_data = 0"
  by code_simp

text \<open>
  C3, as stated, fails: \<^verbatim>\<open>update_progress\<close> with an empty problem id and a topic that is
  not in \<open>all_topics\<close> returns a summary and changes the state.
\<close>

theorem update_progress_rejects_counterexample:
  "''Quantum Computing'' \<notin> set all_topics
   \<and> update_progress exact_arith ''2026-11-04T12:00:00'' '''' ''Quantum Computing'' ''Medium''
       False init_user_data =
     Inr (\<lparr>p_total_problems = 1, p_problems_solved = 0, p_accuracy = PyFloat 0,
           p_topics_covered = {''Quantum Computing''},
           p_weak_areas = [''Quantum Computing'']\<rparr>,
          \<lparr>problems_solved =
             [\<lparr>a_id = '''', a_topic = ''Quantum Computing'', a_difficulty = ''Medium'',
               a_solved = False, a_timestamp = ''2026-11-04T12:00:00''\<rparr>],
           topics_covered = {''Quantum Computing''},
           weak_areas = [''Quantum Computing''],
           streak_days = 0, total_problems = 1, last_session = None\<rparr>)
   \<and> total_problems init_user_data \<noteq> 1"
  by code_simp

text \<open>
  C3, amended. \<^verbatim>\<open>update_progress\<close> checks nothing: for every problem id, topic,
  difficulty and verdict it returns normally, the attempt is appended to the history, the
  topic is added to the covered topics, \<^verbatim>\<open>total_problems\<close> grows by one, the topic is
  appended to the weak areas when the attempt is unsolved and the topic is not there yet,
  and the value returned is the summary of the new state.
\<close>

theorem update_progress_accepts_every_input:
  "\<exists>s ud'. update_progress fa ts problem_id topic difficulty solved ud = Inr (s, ud')
     \<and> problems_solved ud' =
         problems_solved ud @
           [\<lparr>a_id = problem_id, a_topic = topic, a_difficulty = difficulty,
             a_solved = solved, a_timestamp = ts\<rparr>]
     \<and> topics_covered ud' = insert topic (topics_covered ud)
     \<and> total_problems ud' = total_problems ud + 1
     \<and> weak_areas ud' =
         (if solved \<or> topic \<in> set (weak_areas ud) then weak_areas ud
          else weak_areas ud @ [topic])
     \<and> get_progress_summary fa ud' = Inr (s, ud')"
proof -
  let ?ud' = "ud\<lparr>problems_solved := problems_solved ud @
                [\<lparr>a_id = problem_id, a_topic = topic, a_difficulty = difficulty,
                  a_solved = solved, a_timestamp = ts\<rparr>],
             topics_covered := insert topic (topics_covered ud),
             total_problems := total_problems ud + 1,
             weak_areas := (if solved \<or> topic \<in> set (weak_areas ud) then weak_areas ud
                            else weak_areas ud @ [topic])\<rparr>"
  have step: "update_progress fa ts problem_id topic difficulty solved ud =
                get_progress_summary fa ?ud'"
    by (simp add: update_progress_def Let_def)
  from get_progress_summary_Inr [of fa ?ud']
  obtain s where s: "get_progress_summary fa ?ud' = Inr (s, ?ud')"
    by blast
  have "problems_solved ?ud' =
          problems_solved ud @
            [\<lparr>a_id = problem_id, a_topic = topic, a_difficulty = difficulty,
              a_solved = solved, a_timestamp = ts\<rparr>]"
    and "topics_covered ?ud' = insert topic (topics_covered ud)"
    and "total_problems ?ud' = total_problems ud + 1"
    and "weak_areas ?ud' =
          (if solved \<or> topic \<in> set (weak_areas ud) then weak_areas ud
           else weak_areas ud @ [topic])"
    by simp_all
  with step s show ?thesis
    by metis
qed

text \<open>
  C4. \<^verbatim>\<open>recommend_next_topic\<close> raises nothing and leaves the state as it is; it
  returns the first weak area when there is one, otherwise the first topic of
  \<open>all_topics\<close> that is not covered, otherwise the first topic of \<open>all_topics\<close>,
  which is Arrays.
\<close>

theorem recommend_next_topic_policy:
  "recommend_next_topic ud =
     Inr (case weak_areas ud of
            w # _ \<Rightarrow> w
          | [] \<Rightarrow> (case List.find (\<lambda>t. t \<notin> topics_covered ud) all_topics of
                     Some t \<Rightarrow> t
                   | None \<Rightarrow> hd all_topics), ud)
   \<and> hd all_topics = ''Arrays''"
proof -
  have first: "subscript0 all_topics = Inr (hd all_topics)"
    by (simp add: all_topics_def subscript0_def)
  have arrays: "hd all_topics = ''Arrays''"
    by (simp add: all_topics_def)
  show ?thesis
  proof (cases "weak_areas ud")
    case (Cons w ws)
    then show ?thesis
      by (simp add: recommend_next_topic_def subscript0_def arrays)
  next
    case Nil
    show ?thesis
    proof (cases "List.find (\<lambda>t. t \<notin> topics_covered ud) all_topics")
      case None
      with Nil first arrays show ?thesis
        by (simp add: recommend_next_topic_def filter_Nil_find)
    next
      case (Some t)
      with Nil arrays show ?thesis
        by (simp add: recommend_next_topic_def filter_Nil_find subscript0_filter)
    qed
  qed
qed

text \<open>
  C5. After any list of \<^verbatim>\<open>update_progress\<close> calls on a new tracker, no call has raised,
  and in the summary of the resulting state \<^verbatim>\<open>total_problems\<close> is the number of calls and
  \<^verbatim>\<open>problems_solved\<close> is the number of calls with \<^verbatim>\<open>solved = True\<close>.
\<close>

theorem update_progress_all_summary_counts:
  "\<exists>ud' s. update_progress_all fa cs init_user_data = Inr ud'
          \<and> get_progress_summary fa ud' = Inr (s, ud')
          \<and> p_total_problems s = int (length cs)
          \<and> p_problems_solved s = int (length (filter c_solved cs))"
proof -
  from update_progress_all_counts [of fa cs init_user_data]
  obtain ud' where run: "update_progress_all fa cs init_user_data = Inr ud'"
    and tot: "total_problems ud' = int (length cs)"
    and cnt: "solved_count ud' = int (length (filter c_solved cs))"
    by (auto simp: init_counts)
  from get_progress_summary_Inr [of fa ud']
  obtain s where s: "get_progress_summary fa ud' = Inr (s, ud')"
    and "p_total_problems s = total_problems ud'"
    and "p_problems_solved s = solved_count ud'"
    by force
  with run tot cnt show ?thesis by auto
qed

text \<open>
  C6. The invariant \<open>progress_inv\<close> (every topic of the history is covered, the weak areas
  are covered and have no duplicates, and the number of solved attempts lies between 0 and
  \<^verbatim>\<open>total_problems\<close>) holds for a new tracker, and every method called in a state that
  satisfies it returns normally in a state that satisfies it.
\<close>

theorem progress_inv_preserved:
  "progress_inv init_user_data
   \<and> (progress_inv ud \<longrightarrow>
        (\<exists>s ud'. update_progress fa ts problem_id topic difficulty solved ud = Inr (s, ud')
            \<and> progress_inv ud')
      \<and> (\<exists>r ud'. submit_solution fa outcome evaluated_at ts problem_id solution_code language ud
                     = Inr (r, ud') \<and> progress_inv ud')
      \<and> (\<exists>r ud'. start_session fa outcome stamp generated_at user_level ud = Inr (r, ud')
            \<and> progress_inv ud')
      \<and> (\<exists>r ud'. get_study_plan fa ud = Inr (r, ud') \<and> progress_inv ud')
      \<and> (\<exists>s ud'. get_progress_summary fa ud = Inr (s, ud') \<and> progress_inv ud')
      \<and> (\<exists>t ud'. recommend_next_topic ud = Inr (t, ud') \<and> progress_inv ud'))"
proof -
  have "\<exists>r ud'. start_session fa outcome stamp generated_at user_level ud = Inr (r, ud')
          \<and> progress_inv ud'" if "progress_inv ud"
    using that start_session_Inr [of fa outcome stamp generated_at user_level ud] by blast
  moreover have "\<exists>r ud'. get_study_plan fa ud = Inr (r, ud') \<and> progress_inv ud'"
    if "progress_inv ud"
    using that get_study_plan_Inr [of fa ud] by blast
  moreover have "\<exists>s ud'. get_progress_summary fa ud = Inr (s, ud') \<and> progress_inv ud'"
    if "progress_inv ud"
    using that get_progress_summary_Inr [of fa ud] by blast
  moreover have "\<exists>t ud'. recommend_next_topic ud = Inr (t, ud') \<and> progress_inv ud'"
    if "progress_inv ud"
    using that recommend_next_topic_Inr [of ud] by blast
  ultimately show ?thesis
    using progress_inv_init
      update_progress_inv [of ud fa ts problem_id topic difficulty solved]
      submit_solution_inv [of ud fa outcome evaluated_at ts problem_id solution_code language]
    by blast
qed

theorem progress_inv_preserved_witness:
  "progress_inv
     \<lparr>problems_solved =
        [\<lparr>a_id = ''graphs_20261104120000'', a_topic = ''Graphs'', a_difficulty = ''Medium'',
          a_solved = False, a_timestamp = ''2026-11-04T12:05:01''\<rparr>],
      topics_covered = {''Graphs''}, weak_areas = [''Graphs''],
      streak_days = 0, total_problems = 1, last_session = None\<rparr>
   \<and> (\<exists>s ud'. update_progress exact_arith ''2026-11-04T12:10:00'' ''trees_1'' ''Trees'' ''Easy''
                  False
                  \<lparr>problems_solved =
                     [\<lparr>a_id = ''graphs_20261104120000'', a_topic = ''Graphs'',
                       a_difficulty = ''Medium'', a_solved = False,
                       a_timestamp = ''2026-11-04T12:05:01''\<rparr>],
                   topics_covered = {''Graphs''}, weak_areas = [''Graphs''],
                   streak_days = 0, total_problems = 1, last_session = None\<rparr> = Inr (s, ud')
         \<and> progress_inv ud')"
proof -
  let ?ud = "\<lparr>problems_solved =
        [\<lparr>a_id = ''graphs_20261104120000'', a_topic = ''Graphs'', a_difficulty = ''Medium'',
          a_solved = False, a_timestamp = ''2026-11-04T12:05:01''\<rparr>],
      topics_covered = {''Graphs''}, weak_areas = [''Graphs''],
      streak_days = 0, total_problems = 1, last_session = None\<rparr>"
  have inv: "progress_inv ?ud"
    by (simp add: progress_inv_def solved_count_def)
  with progress_inv_preserved [where ud = ?ud and fa = exact_arith
         and ts = "''2026-11-04T12:10:00''" and problem_id = "''trees_1''"
         and topic = "''Trees''" and difficulty = "''Easy''" and solved = False]
  show ?thesis by blast
qed




text \<open>
  C8. \<^verbatim>\<open>_generate_study_suggestions\<close> applies its three rules in their order and keeps
  the suggestion of every rule that matches; for three problems, accuracy 33.33 and the
  weak areas [Graphs] it returns the three suggestions in the order of the rules; and the
  suggestions of \<^verbatim>\<open>get_study_plan\<close> are the ones it computes for the summary of the
  state.
\<close>

theorem study_suggestions_rule_table:
  "generate_study_suggestions progress =
     Inr ((if p_total_problems progress < 10
           then [''Build consistency by solving at least 2 problems daily''] else [])
          @ (if num_val (p_accuracy progress) < 50
             then [''Focus on understanding concepts before attempting more problems'']
             else [])
          @ (case p_weak_areas progress of
               [] \<Rightarrow> []
             | w # _ \<Rightarrow> [''Review '' @ w @ '' fundamentals'']))
   \<and> generate_study_suggestions
        \<lparr>p_total_problems = 3, p_problems_solved = n, p_accuracy = PyFloat (3333 / 100),
         p_topics_covered = tc, p_weak_areas = [''Graphs'']\<rparr> =
       Inr [''Build consistency by solving at least 2 problems daily'',
            ''Focus on understanding concepts before attempting more problems'',
            ''Review Graphs fundamentals'']
   \<and> (\<exists>r p. get_progress_summary fa ud = Inr (p, ud)
          \<and> get_study_plan fa ud = Inr (r, ud)
          \<and> generate_study_suggestions p = Inr (pl_suggestions r))"
proof -
  have rules: "generate_study_suggestions progress =
     Inr ((if p_total_problems progress < 10
           then [''Build consistency by solving at least 2 problems daily''] else [])
          @ (if num_val (p_accuracy progress) < 50
             then [''Focus on understanding concepts before attempting more problems'']
             else [])
          @ (case p_weak_areas progress of
               [] \<Rightarrow> []
             | w # _ \<Rightarrow> [''Review '' @ w @ '' fundamentals'']))"
    by (simp add: generate_study_suggestions_def subscript0_def Let_def split: list.splits)
  have example: "generate_study_suggestions
        \<lparr>p_total_problems = 3, p_problems_solved = n, p_accuracy = PyFloat (3333 / 100),
         p_topics_covered = tc, p_weak_areas = [''Graphs'']\<rparr> =
       Inr [''Build consistency by solving at least 2 problems daily'',
            ''Focus on understanding concepts before attempting more problems'',
            ''Review Graphs fundamentals'']"
    by (simp add: generate_study_suggestions_def subscript0_def Let_def)
  from rules example get_study_plan_Inr [of fa ud]
  show ?thesis by blast
qed

text \<open>
  C9. \<^verbatim>\<open>get_progress_summary\<close> raises nothing and returns the state it was called in;
  called again in the state it returned, it returns the same summary.
\<close>

theorem get_progress_summary_idempotent:
  "\<exists>s ud1. get_progress_summary fa ud = Inr (s, ud1) \<and> ud1 = ud
          \<and> get_progress_summary fa ud1 = Inr (s, ud1)"
  using get_progress_summary_Inr [of fa ud] by auto

text \<open>
  C10. \<^verbatim>\<open>start_session\<close> returns the state it was called in, whether the generator's call
  raises or answers: it reads the recommended topic, and the problem it returns is the one
  generated for that topic at difficulty Medium.
\<close>

theorem start_session_frame:
  "\<exists>r topic. recommend_next_topic ud = Inr (topic, ud)
       \<and> start_session fa outcome stamp generated_at user_level ud = Inr (r, ud)
       \<and> ss_problem r = generate_problem outcome stamp generated_at topic ''Medium'' user_level"
proof -
  from recommend_next_topic_Inr [of ud]
  obtain topic where rec: "recommend_next_topic ud = Inr (topic, ud)"
    by blast
  from get_progress_summary_Inr [of fa ud]
  obtain s where "get_progress_summary fa ud = Inr (s, ud)"
    by blast
  with rec show ?thesis
    by (simp add: start_session_def Let_def)
qed

end
